theory Spec2Isabelle
  imports Main
begin

section \<open>JavaScript values, errors and effects\<close>

text \<open>
  The hook layer (\<^verbatim>\<open>hooks.ts\<close>) and the chain panel (\<^verbatim>\<open>ChainPanel.tsx\<close>) are embedded
  as pure functions. A server response is an untyped JavaScript value until a schema
  has parsed it, so responses are values of \<open>json\<close>. A \<^verbatim>\<open>string | undefined\<close> is a
  \<open>string option\<close>, with \<open>None\<close> for \<^verbatim>\<open>undefined\<close>. Numbers are only passed through,
  never computed with, and are kept as integers.
\<close>

datatype json =
    JUndefined
  | JNull
  | JBool bool
  | JNum int
  | JStr string
  | JArr "json list"
  | JObj "(string \<times> json) list"

text \<open>What a \<^verbatim>\<open>throw\<close> carries: the runtime's TypeError, a rejected request, a failed parse.\<close>

datatype error = TypeError | ClientError string | ZodError string

text \<open>Truthiness, as \<^verbatim>\<open>x ? a : b\<close>, \<^verbatim>\<open>x || y\<close> and \<^verbatim>\<open>!x\<close> test it.\<close>

fun js_truthy :: "json \<Rightarrow> bool" where
  "js_truthy JUndefined = False"
| "js_truthy JNull = False"
| "js_truthy (JBool b) = b"
| "js_truthy (JNum n) = (n \<noteq> 0)"
| "js_truthy (JStr s) = (s \<noteq> [])"
| "js_truthy (JArr xs) = True"
| "js_truthy (JObj kvs) = True"

fun truthy :: "string option \<Rightarrow> bool" where
  "truthy None = False"
| "truthy (Some s) = (s \<noteq> [])"

text \<open>\<^verbatim>\<open>a || b\<close> on two \<^verbatim>\<open>string | undefined\<close> values.\<close>

definition js_or :: "string option \<Rightarrow> string option \<Rightarrow> string option" where
  "js_or a b = (if truthy a then a else b)"

text \<open>A \<^verbatim>\<open>string | undefined\<close> inside a template literal.\<close>

fun str_of :: "string option \<Rightarrow> string" where
  "str_of None = ''undefined''"
| "str_of (Some s) = s"

text \<open>
  Property access \<^verbatim>\<open>v.k\<close>: a TypeError on \<^verbatim>\<open>undefined\<close> and \<^verbatim>\<open>null\<close>, the member of
  an object, \<^verbatim>\<open>undefined\<close> where there is none. The names read by this code
  (\<^verbatim>\<open>chain\<close>, \<^verbatim>\<open>steps\<close>, \<^verbatim>\<open>id\<close>, ...) are not members of arrays, strings, numbers or
  booleans.
\<close>

fun get_prop :: "json \<Rightarrow> string \<Rightarrow> error + json" where
  "get_prop JUndefined k = Inl TypeError"
| "get_prop JNull k = Inl TypeError"
| "get_prop (JObj kvs) k = Inr (case map_of kvs k of None \<Rightarrow> JUndefined | Some v \<Rightarrow> v)"
| "get_prop v k = Inr JUndefined"

subsection \<open>Entities\<close>

record agent =
  agent_name :: string
  companyName :: "string option"
  agent_default :: bool
  settings :: "(string \<times> string) list"

record company =
  company_id :: string
  company_name :: string
  primary :: bool
  company_agents :: "agent list"

record user =
  user_companies :: "company list"
  email :: string
  firstName :: string
  user_id :: string
  lastName :: string

subsection \<open>The GraphQL client and the schema layer\<close>

datatype schema =
    UserSchema
  | AgentSchema
  | PromptSchema
  | PromptCategorySchema
  | ProviderSchema
  | InvitationSchema
  | CommandArgSchema
  | ChainSchema
  | ChainsSchema
  | ConversationSchema
  | ConversationEdgeSchema
  | ZArray schema
  | ZObject "(string \<times> schema) list"

datatype gql_intent = Query | Mutation | Subscription

type_synonym variables = "(string \<times> string option) list"

text \<open>
  \<^verbatim>\<open>Schema.toGQL(intent, operation, variables)\<close> builds the request document. The
  document is kept as the arguments that determine it.
\<close>

record gql_doc =
  doc_schema :: schema
  doc_intent :: gql_intent
  doc_operation :: string
  doc_variables :: variables

definition toGQL :: "schema \<Rightarrow> gql_intent \<Rightarrow> string \<Rightarrow> variables \<Rightarrow> gql_doc" where
  "toGQL s i opname vars =
     \<lparr>doc_schema = s, doc_intent = i, doc_operation = opname, doc_variables = vars\<rparr>"

record gql_client =
  endpoint :: string
  authorization :: string

subsection \<open>Effects\<close>

text \<open>
  Everything the code does to the outside, in the order it does it: log lines (with
  the \<^verbatim>\<open>client\<close> severity), GraphQL requests, calls of the REST client
  \<^verbatim>\<open>context.agixt\<close>, \<^verbatim>\<open>axios.get\<close>, cookie writes, router pushes, state setters and
  the click on the download anchor.
\<close>

record download =
  file_name :: string
  blob_text :: string
  blob_type :: string

datatype event =
    Log nat string
  | GqlRequest gql_client gql_doc variables
  | AgixtCall string "string option list"
  | AxiosGet string "string option"
  | SetCookie string string "string option"
  | ConsoleLog string
  | RouterPush string
  | SetRenaming bool
  | AnchorClick download

text \<open>An asynchronous computation: the effects it performed, then a rejection or a value.\<close>

type_synonym 'a io = "event list \<times> (error + 'a)"

definition io_return :: "'a \<Rightarrow> 'a io" where
  "io_return v = ([], Inr v)"

definition io_lift :: "error + 'a \<Rightarrow> 'a io" where
  "io_lift r = ([], r)"

definition io_emit :: "event \<Rightarrow> (error + 'a) \<Rightarrow> 'a io" where
  "io_emit e r = ([e], r)"

definition io_bind :: "'a io \<Rightarrow> ('a \<Rightarrow> 'b io) \<Rightarrow> 'b io" where
  "io_bind m f =
     (case m of
        (t, Inl e) \<Rightarrow> (t, Inl e)
      | (t, Inr v) \<Rightarrow> (case f v of (t', r) \<Rightarrow> (t @ t', r)))"

definition io_then :: "unit io \<Rightarrow> 'b io \<Rightarrow> 'b io" where
  "io_then m k = io_bind m (\<lambda>_. k)"

text \<open>\<^verbatim>\<open>try { m } catch (error) { h(error) }\<close>\<close>

definition io_catch :: "'a io \<Rightarrow> (error \<Rightarrow> 'a io) \<Rightarrow> 'a io" where
  "io_catch m h =
     (case m of
        (t, Inl e) \<Rightarrow> (case h e of (t', r) \<Rightarrow> (t @ t', r))
      | (t, Inr v) \<Rightarrow> (t, Inr v))"

definition log :: "nat \<Rightarrow> string \<Rightarrow> unit io" where
  "log severity label = io_emit (Log severity label) (Inr ())"

subsection \<open>The environment\<close>

text \<open>
  What the code reads from outside: the two configuration variables, the answers of
  the GraphQL server, of the REST client and of \<^verbatim>\<open>axios\<close> (a rejection is \<open>Inl\<close>), the
  parsers of the schema layer, and the two platform serialisers. All of them are
  parameters: every theorem below holds for every environment.
\<close>

record env =
  NEXT_PUBLIC_AGIXT_SERVER :: "string option"
  NEXT_PUBLIC_COOKIE_DOMAIN :: "string option"
  graphql :: "gql_client \<Rightarrow> gql_doc \<Rightarrow> variables \<Rightarrow> error + json"
  zod_parse :: "schema \<Rightarrow> json \<Rightarrow> error + json"
  parse_user :: "json \<Rightarrow> error + user"
  parse_agent :: "json \<Rightarrow> error + agent"
  agixt_getCommands :: "string \<Rightarrow> error + string list"
  agixt_getCompanies :: "error + json"
  agixt_getInvitations :: "string option \<Rightarrow> error + json"
  agixt_getChain :: "string \<Rightarrow> error + json"
  agixt_renameChain :: "string \<Rightarrow> string \<Rightarrow> error + json"
  agixt_deleteChain :: "string \<Rightarrow> error + json"
  axios_get :: "string \<Rightarrow> string option \<Rightarrow> error + json"
  JSON_stringify :: "json \<Rightarrow> string option"
  URLSearchParams_toString :: "(string \<times> string) list \<Rightarrow> string"

type_synonym cookie_jar = "string \<rightharpoonup> string"

definition getCookie :: "cookie_jar \<Rightarrow> string \<Rightarrow> string option" where
  "getCookie jar n = jar n"

definition createGraphQLClient :: "env \<Rightarrow> cookie_jar \<Rightarrow> gql_client" where
  "createGraphQLClient e jar =
     \<lparr>endpoint = str_of (NEXT_PUBLIC_AGIXT_SERVER e) @ ''/graphql'',
      authorization = (case js_or (getCookie jar ''jwt'') (Some []) of
                         None \<Rightarrow> [] | Some a \<Rightarrow> a)\<rparr>"

text \<open>\<^verbatim>\<open>await client.request(query, variables)\<close>\<close>

definition request :: "env \<Rightarrow> gql_client \<Rightarrow> gql_doc \<Rightarrow> variables \<Rightarrow> json io" where
  "request e client query vars = io_emit (GqlRequest client query vars) (graphql e client query vars)"

section \<open>The caching layer\<close>

datatype key_part =
    KString string
  | KNull
  | KBool bool
  | KUser "user option"
  | KCompanies "company list option"

datatype swr_key = StrKey string | ArrKey "key_part list"

record 'd swr_config =
  fallbackData :: 'd
  refreshInterval :: "nat option"
  revalidateOnFocus :: "bool option"
  revalidateOnReconnect :: "bool option"

definition fallback_only :: "'d \<Rightarrow> 'd swr_config" where
  "fallback_only d =
     \<lparr>fallbackData = d, refreshInterval = None, revalidateOnFocus = None,
      revalidateOnReconnect = None\<rparr>"

record 'd swr_response =
  key :: "swr_key option"
  config :: "'d swr_config"
  effects :: "event list"
  data :: 'd
  error :: "error option"

text \<open>
  The caching library's defaults, as its documentation gives them and as \<^verbatim>\<open>usePrompt\<close>
  relies on when it switches them off: a hook revalidates when the window regains
  focus and when the network reconnects, unless its configuration says \<^verbatim>\<open>false\<close>.
\<close>

definition revalidates_on_focus :: "'d swr_config \<Rightarrow> bool" where
  "revalidates_on_focus cfg = (case revalidateOnFocus cfg of None \<Rightarrow> True | Some b \<Rightarrow> b)"

definition revalidates_on_reconnect :: "'d swr_config \<Rightarrow> bool" where
  "revalidates_on_reconnect cfg = (case revalidateOnReconnect cfg of None \<Rightarrow> True | Some b \<Rightarrow> b)"

text \<open>
  Modelled from the spec: \<^verbatim>\<open>useSWR\<close> of the caching library, which is not part of
  the repository. "If any required input is absent, skip fetching (key is inert) and
  return the configured empty/fallback value; otherwise invoke an asynchronous fetcher"
  and return its result. The response is the one a component sees once the fetch for
  the key has settled: with a \<^verbatim>\<open>null\<close> key the fetcher is not run, so none of its
  effects happen and \<open>data\<close> is the fallback; a fetcher that rejects leaves \<open>data\<close>
  at the fallback and sets \<open>error\<close>. The renders before the fetch settles, which
  show the fallback, and the scheduling of revalidations are not part of the model.
\<close>

definition useSWR :: "swr_key option \<Rightarrow> 'd io \<Rightarrow> 'd swr_config \<Rightarrow> 'd swr_response" where
  "useSWR k fetcher cfg =
     (case k of
        None \<Rightarrow> \<lparr>key = None, config = cfg, effects = [], data = fallbackData cfg, error = None\<rparr>
      | Some k' \<Rightarrow>
          (case fetcher of
             (t, Inr v) \<Rightarrow> \<lparr>key = k, config = cfg, effects = t, data = v, error = None\<rparr>
           | (t, Inl err) \<Rightarrow>
               \<lparr>key = k, config = cfg, effects = t, data = fallbackData cfg, error = Some err\<rparr>))"

section \<open>Agent hooks\<close>

text \<open>
  A hook that reads another hook takes the value it destructures from it as an
  argument: \<open>companies\<close> is the \<^verbatim>\<open>data\<close> of \<^verbatim>\<open>useCompanies()\<close> on this render.
\<close>

definition flatMap :: "('a \<Rightarrow> 'b list) \<Rightarrow> 'a list \<Rightarrow> 'b list" where
  "flatMap f xs = concat (map f xs)"

definition useAgents :: "company list option \<Rightarrow> agent list swr_response" where
  "useAgents companies =
     useSWR (Some (ArrKey [KString ''/agents'', KCompanies companies]))
       (io_return
          (case companies of
             None \<Rightarrow> []
           | Some cs \<Rightarrow>
               flatMap (\<lambda>company.
                  map (\<lambda>agent. agent\<lparr>companyName := Some (company_name company)\<rparr>)
                    (company_agents company)) cs))
       (fallback_only [])"

text \<open>
  \<^verbatim>\<open>useAgent\<close> first chooses the name to search for. Lines 90 to 103: the argument, else
  the \<^verbatim>\<open>agixt-agent\<close> cookie, else the default agent (or the first agent) of the first
  primary company, whose name is then passed to \<^verbatim>\<open>setCookie\<close>. The result is the
  search name, \<^verbatim>\<open>foundEarly\<close> and the effects. What the browser stores after the
  \<^verbatim>\<open>setCookie\<close> call is its own decision and is not modelled; the call is.
\<close>

definition useAgent_select ::
  "env \<Rightarrow> cookie_jar \<Rightarrow> string option \<Rightarrow> company list option
     \<Rightarrow> string option \<times> agent option \<times> event list" where
  "useAgent_select e jar name companies =
     (let searchName = js_or name (getCookie jar ''agixt-agent'') in
      if \<not> truthy searchName \<and> (case companies of None \<Rightarrow> False | Some cs \<Rightarrow> cs \<noteq> []) then
        (case companies of
           None \<Rightarrow> (searchName, None, [])
         | Some cs \<Rightarrow>
             (case find primary cs of
                None \<Rightarrow> (searchName, None, [])
              | Some primaryCompany \<Rightarrow>
                  (case company_agents primaryCompany of
                     [] \<Rightarrow> (searchName, None, [])
                   | first # _ \<Rightarrow>
                       (let primaryAgent = find agent_default (company_agents primaryCompany);
                            foundEarly = (case primaryAgent of Some a \<Rightarrow> a | None \<Rightarrow> first)
                        in (Some (agent_name foundEarly), Some foundEarly,
                            [SetCookie ''agixt-agent'' (agent_name foundEarly)
                               (NEXT_PUBLIC_COOKIE_DOMAIN e)])))))
      else (searchName, None, []))"

text \<open>
  The loop of lines 125 to 133: every company is logged and searched, and a later
  company with an agent of that name overrides an earlier one.
\<close>

fun check_companies :: "string option \<Rightarrow> company list \<Rightarrow> agent option \<Rightarrow> event list \<times> agent option" where
  "check_companies searchName [] found = ([], found)"
| "check_companies searchName (company # rest) found =
     (let agent = find (\<lambda>a. Some (agent_name a) = searchName) (company_agents company);
          found' = (case agent of Some a \<Rightarrow> Some a | None \<Rightarrow> found);
          (t, r) = check_companies searchName rest found'
      in (Log 3 ''GQL useAgent() Checking Company'' # t, r))"

text \<open>
  The result of \<^verbatim>\<open>useAgent\<close> is the effects of the render and the response. The
  fetcher returns \<^verbatim>\<open>{ agent, commands }\<close> without settings, and
  what \<^verbatim>\<open>AgentSchema.parse\<close> returns, the agent itself, with settings.
\<close>

datatype agent_data = AgentAndCommands "agent option" "string list" | ParsedAgent agent

definition useAgent ::
  "env \<Rightarrow> cookie_jar \<Rightarrow> bool \<Rightarrow> string option \<Rightarrow> company list option
     \<Rightarrow> event list \<times> agent_data swr_response" where
  "useAgent e jar withSettings name companies =
     (case useAgent_select e jar name companies of
        (searchName, foundEarly, written) \<Rightarrow>
          (written @ [Log 3 (''GQL useAgent() SEARCH NAME: '' @ str_of searchName)],
           useSWR
             (Some (ArrKey [KString (''/agent?name='' @ str_of searchName), KCompanies companies,
                            KBool withSettings]))
             (io_catch
                (if withSettings then
                   (let client = createGraphQLClient e jar;
                        query = toGQL AgentSchema Query ''GetAgent'' [(''name'', searchName)]
                    in io_then (log 3 ''GQL useAgent() Query'')
                      (io_bind (request e client query [(''name'', searchName)]) (\<lambda>response.
                       io_then (log 3 ''GQL useAgent() Response'')
                      (io_bind (io_lift (get_prop response ''agent'')) (\<lambda>a.
                       io_bind (io_lift (parse_agent e a)) (\<lambda>parsed.
                       io_return (ParsedAgent parsed)))))))
                 else
                   io_bind
                     (if (case companies of None \<Rightarrow> False | Some cs \<Rightarrow> cs \<noteq> []) \<and> foundEarly = None
                      then (case companies of
                              None \<Rightarrow> io_return foundEarly
                            | Some cs \<Rightarrow>
                                (case check_companies searchName cs foundEarly of
                                   (t, found) \<Rightarrow> (t, Inr found)))
                      else io_return foundEarly) (\<lambda>toReturn_agent.
                   io_bind
                     (case toReturn_agent of
                        None \<Rightarrow> io_return []
                      | Some a \<Rightarrow>
                          io_emit (AgixtCall ''getCommands'' [Some (agent_name a)])
                            (agixt_getCommands e (agent_name a))) (\<lambda>commands.
                   io_then (log 3 ''GQL useAgent() Got Agent'')
                     (io_return (AgentAndCommands toReturn_agent commands)))))
                (\<lambda>error. io_then (log 1 ''GQL useAgent() Error'')
                   (io_return (AgentAndCommands None []))))
             (fallback_only (AgentAndCommands None []))))"

section \<open>Prompt hooks\<close>

definition usePromptCategories :: "env \<Rightarrow> cookie_jar \<Rightarrow> json swr_response" where
  "usePromptCategories e jar =
     (let client = createGraphQLClient e jar in
      useSWR (Some (StrKey ''/promptCategories''))
        (io_catch
           (let query = toGQL PromptCategorySchema Query ''GetPromptCategories'' [] in
            io_bind (request e client query []) (\<lambda>response.
            io_return (if js_truthy response then response else JArr [])))
           (\<lambda>error. io_then (log 1 ''GQL usePromptCategories() Error'') (io_return (JArr []))))
        (fallback_only (JArr [])))"

text \<open>
  \<^verbatim>\<open>usePrompt\<close> reads the \<^verbatim>\<open>data\<close> of \<^verbatim>\<open>usePrompts\<close>, which no schema has parsed
  (\<^verbatim>\<open>response.prompts || []\<close>), so it is a \<open>json\<close> here. \<^verbatim>\<open>p.name === name\<close> compares
  a member with a \<^verbatim>\<open>string | undefined\<close>; \<^verbatim>\<open>prompts.find\<close> visits the elements in
  order and throws where \<^verbatim>\<open>p\<close> is \<^verbatim>\<open>null\<close> or \<^verbatim>\<open>undefined\<close>.
\<close>

fun strict_eq :: "json \<Rightarrow> string option \<Rightarrow> bool" where
  "strict_eq (JStr s) (Some n) = (s = n)"
| "strict_eq JUndefined None = True"
| "strict_eq v n = False"

fun find_prompt :: "string option \<Rightarrow> json list \<Rightarrow> error + json option" where
  "find_prompt name [] = Inr None"
| "find_prompt name (p # rest) =
     (case get_prop p ''name'' of
        Inl err \<Rightarrow> Inl err
      | Inr n \<Rightarrow> if strict_eq n name then Inr (Some p) else find_prompt name rest)"

text \<open>
  \<^verbatim>\<open>prompts?.find(...) || null\<close>: \<^verbatim>\<open>null\<close> for a nullish \<^verbatim>\<open>prompts\<close>, for no match and
  for a falsy match; a TypeError for a value that is not an array, which has no
  \<^verbatim>\<open>find\<close>. The fetcher has no \<^verbatim>\<open>try\<close>.
\<close>

definition usePrompt :: "string option \<Rightarrow> json \<Rightarrow> json swr_response" where
  "usePrompt name prompts =
     useSWR (Some (StrKey (''/prompt?name='' @ str_of name)))
       (io_lift
          (case prompts of
             JUndefined \<Rightarrow> Inr JNull
           | JNull \<Rightarrow> Inr JNull
           | JArr ps \<Rightarrow>
               (case find_prompt name ps of
                  Inl err \<Rightarrow> Inl err
                | Inr None \<Rightarrow> Inr JNull
                | Inr (Some p) \<Rightarrow> Inr (if js_truthy p then p else JNull))
           | _ \<Rightarrow> Inl TypeError))
       \<lparr>fallbackData = JNull, refreshInterval = None, revalidateOnFocus = Some False,
        revalidateOnReconnect = Some False\<rparr>"

definition usePrompts :: "env \<Rightarrow> cookie_jar \<Rightarrow> json swr_response" where
  "usePrompts e jar =
     (let client = createGraphQLClient e jar in
      useSWR (Some (StrKey ''/prompts''))
        (io_catch
           (let query = toGQL PromptSchema Query ''GetPrompts'' [] in
            io_bind (request e client query []) (\<lambda>response.
            io_bind (io_lift (get_prop response ''prompts'')) (\<lambda>prompts.
            io_return (if js_truthy prompts then prompts else JArr []))))
           (\<lambda>error. io_then (log 1 ''GQL usePrompts() Error'') (io_return (JArr []))))
        (fallback_only (JArr [])))"

section \<open>Company and user hooks\<close>

definition useCompanies :: "user option \<Rightarrow> company list swr_response" where
  "useCompanies user =
     useSWR (Some (ArrKey [KString ''/companies'', KUser user]))
       (io_return (case user of None \<Rightarrow> [] | Some u \<Rightarrow> user_companies u))
       (fallback_only [])"

definition useCompany ::
  "cookie_jar \<Rightarrow> string option \<Rightarrow> company list option \<Rightarrow> company option swr_response" where
  "useCompany jar id' companies =
     useSWR (Some (ArrKey [KString (''/company?id='' @ str_of id'), KCompanies companies]))
       (io_catch
          (if truthy id' then
             io_return
               (case companies of
                  None \<Rightarrow> None
                | Some cs \<Rightarrow> find (\<lambda>c. Some (company_id c) = id') cs)
           else
             (let agentName = getCookie jar ''agixt-agent'' in
              io_return
                (case companies of
                   None \<Rightarrow> None
                 | Some cs \<Rightarrow>
                     find (\<lambda>c. if truthy agentName
                                then list_ex (\<lambda>a. Some (agent_name a) = agentName) (company_agents c)
                                else primary c) cs)))
          (\<lambda>error. io_then (log 1 ''GQL useCompany() Error'') (io_return None)))
       (fallback_only None)"

definition zero_user :: user where
  "zero_user = \<lparr>user_companies = [], email = [], firstName = [], user_id = [], lastName = []\<rparr>"

definition useUser :: "env \<Rightarrow> cookie_jar \<Rightarrow> user swr_response" where
  "useUser e jar =
     (let client = createGraphQLClient e jar in
      useSWR (Some (StrKey ''/user''))
        (io_catch
           (let query = toGQL UserSchema Query ''GetUser'' [] in
            io_then (log 3 ''GQL useUser() Query'')
           (io_bind (request e client query []) (\<lambda>response.
            io_then (log 3 ''GQL useUser() Response'')
           (io_bind (io_lift (get_prop response ''user'')) (\<lambda>u.
            io_lift (parse_user e u))))))
           (\<lambda>error. io_then (log 1 ''GQL useUser() Error'') (io_return zero_user)))
        (fallback_only zero_user))"

section \<open>Provider, invitation and command hooks\<close>

text \<open>
  The identifier of a hook is a \<open>string option\<close> also where the signature says
  \<^verbatim>\<open>string\<close>: the test \<^verbatim>\<open>x ? [...] : null\<close> treats \<^verbatim>\<open>undefined\<close> and the empty string
  alike, and a caller can pass either.
\<close>

definition useProvider :: "env \<Rightarrow> cookie_jar \<Rightarrow> string option \<Rightarrow> json swr_response" where
  "useProvider e jar providerName =
     (let client = createGraphQLClient e jar in
      useSWR
        (case providerName of
           None \<Rightarrow> None
         | Some n \<Rightarrow> if n \<noteq> [] then Some (ArrKey [KString ''/provider'', KString n]) else None)
        (io_catch
           (let query = toGQL ProviderSchema Query ''GetProvider'' [(''providerName'', providerName)] in
            io_bind (request e client query [(''providerName'', providerName)]) (\<lambda>response.
            io_bind (io_lift (zod_parse e ProviderSchema response)) (\<lambda>validated.
            io_lift (get_prop validated ''provider''))))
           (\<lambda>error. io_then (log 1 ''GQL useProvider() Error'') (io_return JNull)))
        (fallback_only JNull))"

definition useProviders :: "env \<Rightarrow> cookie_jar \<Rightarrow> json swr_response" where
  "useProviders e jar =
     (let client = createGraphQLClient e jar in
      useSWR (Some (StrKey ''/providers''))
        (io_catch
           (let query = toGQL ProviderSchema Query ''GetProviders'' [] in
            io_bind (request e client query []) (\<lambda>response.
            io_then (log 3 ''GQL useProviders() Response'')
           (io_bind (io_lift (get_prop response ''providers'')) (\<lambda>providers.
            io_bind (io_lift (zod_parse e (ZArray ProviderSchema) providers)) (\<lambda>validated.
            io_then (log 3 ''GQL useProviders() Validated'')
           (io_return validated))))))
           (\<lambda>error. io_then (log 1 ''GQL useProviders() Error'') (io_return (JArr []))))
        (fallback_only (JArr [])))"

definition useInvitations :: "env \<Rightarrow> cookie_jar \<Rightarrow> string option \<Rightarrow> json swr_response" where
  "useInvitations e jar companyId =
     (let client = createGraphQLClient e jar in
      useSWR
        (Some (case companyId of
                 None \<Rightarrow> StrKey ''/invitations''
               | Some c \<Rightarrow> if c \<noteq> [] then ArrKey [KString ''/invitations'', KString c]
                           else StrKey ''/invitations''))
        (io_catch
           (let query = toGQL InvitationSchema Query ''GetInvitations'' [(''companyId'', companyId)] in
            io_bind (request e client query [(''companyId'', companyId)]) (\<lambda>response.
            io_bind (io_lift (zod_parse e InvitationSchema response)) (\<lambda>validated.
            io_lift (get_prop validated ''invitations''))))
           (\<lambda>error. io_then (log 1 ''GQL useInvitations() Error'') (io_return (JArr []))))
        (fallback_only (JArr [])))"

definition useCommandArgs :: "env \<Rightarrow> cookie_jar \<Rightarrow> string option \<Rightarrow> json swr_response" where
  "useCommandArgs e jar commandName =
     (let client = createGraphQLClient e jar in
      useSWR
        (case commandName of
           None \<Rightarrow> None
         | Some n \<Rightarrow> if n \<noteq> [] then Some (ArrKey [KString ''/command_args'', KString n]) else None)
        (io_catch
           (let query = toGQL CommandArgSchema Query ''GetCommandArgs'' [(''commandName'', commandName)] in
            io_bind (request e client query [(''commandName'', commandName)]) (\<lambda>response.
            io_bind (io_lift (zod_parse e CommandArgSchema response)) (\<lambda>validated.
            io_return validated)))
           (\<lambda>error. io_then (log 1 ''GQL useCommandArgs() Error'') (io_return JNull)))
        (fallback_only JNull))"

section \<open>Chain hooks\<close>

definition useChain :: "env \<Rightarrow> cookie_jar \<Rightarrow> string option \<Rightarrow> json swr_response" where
  "useChain e jar chainName =
     (let client = createGraphQLClient e jar in
      useSWR
        (case chainName of
           None \<Rightarrow> None
         | Some n \<Rightarrow> if n \<noteq> [] then Some (ArrKey [KString ''/chain'', KString n]) else None)
        (io_catch
           (let query = toGQL ChainSchema Query ''GetChain'' [(''chainName'', chainName)] in
            io_then (log 3 ''GQL useChain() Query'')
           (io_bind (request e client query [(''chainName'', chainName)]) (\<lambda>response.
            io_then (log 3 ''GQL useChain() Response'')
           (io_bind (io_lift (get_prop response ''chain'')) (\<lambda>chain.
            io_bind (io_lift (zod_parse e ChainSchema chain)) (\<lambda>validated.
            io_then (log 3 ''GQL useChain() Validated'')
           (io_return validated)))))))
           (\<lambda>error. io_then (log 1 ''GQL useChain() Error'') (io_return JNull)))
        (fallback_only JNull))"

definition useChains :: "env \<Rightarrow> cookie_jar \<Rightarrow> json swr_response" where
  "useChains e jar =
     (let client = createGraphQLClient e jar in
      useSWR (Some (StrKey ''/chains''))
        (io_catch
           (let query = toGQL ChainsSchema Query ''GetChains'' [] in
            io_bind (request e client query []) (\<lambda>response.
            io_bind (io_lift (get_prop response ''chains'')) (\<lambda>chains.
            io_bind (io_lift (zod_parse e (ZArray ChainsSchema) chains)) (\<lambda>validated.
            io_return validated))))
           (\<lambda>error. io_then (log 1 ''GQL useChains() Error'') (io_return (JArr []))))
        (fallback_only (JArr [])))"

section \<open>Conversation hooks\<close>

definition useConversation :: "env \<Rightarrow> cookie_jar \<Rightarrow> string option \<Rightarrow> json swr_response" where
  "useConversation e jar conversationId =
     (let client = createGraphQLClient e jar in
      useSWR
        (case conversationId of
           None \<Rightarrow> None
         | Some n \<Rightarrow> if n \<noteq> [] then Some (ArrKey [KString ''/conversation'', KString n]) else None)
        (io_catch
           (let query = toGQL ConversationSchema Subscription ''WatchConversation''
                          [(''conversationId'', conversationId)] in
            io_bind (request e client query [(''conversationId'', conversationId)]) (\<lambda>response.
            io_lift (get_prop response ''conversation'')))
           (\<lambda>error. io_then (log 1 ''GQL useConversation() Error'') (io_return JNull)))
        \<lparr>fallbackData = JNull, refreshInterval = Some 1000, revalidateOnFocus = None,
         revalidateOnReconnect = None\<rparr>)"

text \<open>The key of \<^verbatim>\<open>useConversations\<close> is \<^verbatim>\<open>'/chains'\<close> in the source, as written here.\<close>

definition useConversations :: "env \<Rightarrow> cookie_jar \<Rightarrow> json swr_response" where
  "useConversations e jar =
     (let client = createGraphQLClient e jar in
      useSWR (Some (StrKey ''/chains''))
        (io_catch
           (let query = toGQL (ZObject [(''edges'', ConversationEdgeSchema)]) Query
                          ''GetConversations'' [] in
            io_then (log 3 ''GQL useConversations() Query'')
           (io_bind (request e client query []) (\<lambda>response.
            io_bind (io_lift (get_prop response ''conversations'')) (\<lambda>conversations.
            io_bind (io_lift (get_prop conversations ''edges'')) (\<lambda>edges.
            io_lift (zod_parse e (ZArray ConversationEdgeSchema) edges))))))
           (\<lambda>error. io_then (log 1 ''GQL useConversations() Error'') (io_return (JArr []))))
        (fallback_only (JArr [])))"

section \<open>The hooks over the REST client\<close>

definition useOldCompanies :: "env \<Rightarrow> json swr_response" where
  "useOldCompanies e =
     useSWR (Some (StrKey ''/companies''))
       (io_emit (AgixtCall ''getCompanies'' []) (agixt_getCompanies e))
       (fallback_only (JArr []))"

definition useOldInvitations :: "env \<Rightarrow> string option \<Rightarrow> json swr_response" where
  "useOldInvitations e company_id' =
     useSWR
       (Some (StrKey (if truthy company_id' then ''/invitations/'' @ str_of company_id'
                      else ''/invitations'')))
       (io_emit (AgixtCall ''getInvitations'' [company_id']) (agixt_getInvitations e company_id'))
       (fallback_only (JArr []))"

text \<open>
  \<^verbatim>\<open>xs.filter((company) => company.id === companyData.id)\<close>: the callback reads
  \<^verbatim>\<open>company.id\<close>, then \<^verbatim>\<open>companyData.id\<close>, which throws when \<^verbatim>\<open>companyData\<close> is
  \<^verbatim>\<open>null\<close>; \<^verbatim>\<open>filter\<close> is a method of arrays only.
\<close>

fun filter_by_id :: "company option \<Rightarrow> json list \<Rightarrow> error + json list" where
  "filter_by_id companyData [] = Inr []"
| "filter_by_id companyData (company # rest) =
     (case get_prop company ''id'' of
        Inl err \<Rightarrow> Inl err
      | Inr cid \<Rightarrow>
          (case companyData of
             None \<Rightarrow> Inl TypeError
           | Some cd \<Rightarrow>
               (case filter_by_id companyData rest of
                  Inl err \<Rightarrow> Inl err
                | Inr kept \<Rightarrow> Inr (if cid = JStr (company_id cd) then company # kept else kept))))"

fun js_filter_by_id :: "company option \<Rightarrow> json \<Rightarrow> error + json list" where
  "js_filter_by_id companyData (JArr xs) = filter_by_id companyData xs"
| "js_filter_by_id companyData v = Inl TypeError"

text \<open>\<^verbatim>\<open>xs[0]\<close> on an array.\<close>

fun first_of :: "json list \<Rightarrow> json" where
  "first_of [] = JUndefined"
| "first_of (x # xs) = x"

text \<open>\<^verbatim>\<open>target.k = v\<close>: a TypeError on \<^verbatim>\<open>undefined\<close> and \<^verbatim>\<open>null\<close>.\<close>

fun obj_put :: "(string \<times> json) list \<Rightarrow> string \<Rightarrow> json \<Rightarrow> (string \<times> json) list" where
  "obj_put [] k v = [(k, v)]"
| "obj_put ((k', w) # rest) k v = (if k' = k then (k, v) # rest else (k', w) # obj_put rest k v)"

fun set_prop :: "json \<Rightarrow> string \<Rightarrow> json \<Rightarrow> error + json" where
  "set_prop JUndefined k v = Inl TypeError"
| "set_prop JNull k v = Inl TypeError"
| "set_prop (JObj kvs) k v = Inr (JObj (obj_put kvs k v))"
| "set_prop t k v = Inr t"

definition useOldActiveCompany :: "env \<Rightarrow> cookie_jar \<Rightarrow> company option \<Rightarrow> json swr_response" where
  "useOldActiveCompany e jar companyData =
     useSWR
       (Some (ArrKey [KString ''/companies'',
                      (case companyData of None \<Rightarrow> KNull | Some cd \<Rightarrow> KString (company_id cd))]))
       (io_bind (io_emit (AgixtCall ''getCompanies'' []) (agixt_getCompanies e)) (\<lambda>companies.
        io_bind (io_emit (AxiosGet (str_of (NEXT_PUBLIC_AGIXT_SERVER e) @ ''/v1/user'')
                            (getCookie jar ''jwt''))
                   (axios_get e (str_of (NEXT_PUBLIC_AGIXT_SERVER e) @ ''/v1/user'')
                      (getCookie jar ''jwt''))) (\<lambda>user.
        io_then (io_emit (ConsoleLog ''ACTIVE COMPANY USER'') (Inr ()))
       (io_bind (io_lift (js_filter_by_id companyData companies)) (\<lambda>matching.
        io_then (io_emit (ConsoleLog ''ACTIVE COMPANY TARGET'') (Inr ()))
       (io_bind (io_lift (get_prop user ''data'')) (\<lambda>user_data.
        io_bind (io_lift (get_prop user_data ''companies'')) (\<lambda>user_companies'.
        io_bind (io_lift (js_filter_by_id companyData user_companies')) (\<lambda>shown.
        io_then (io_emit (ConsoleLog ''USER COMPANY'') (Inr ()))
       (io_bind (io_lift (js_filter_by_id companyData user_companies')) (\<lambda>mine.
        io_bind (io_lift (get_prop (first_of mine) ''role_id'')) (\<lambda>role_id.
        io_bind (io_lift (set_prop (first_of matching) ''my_role'' role_id)) (\<lambda>target.
        io_then (io_emit (ConsoleLog ''ACTIVE COMPANY TARGET AFTER'') (Inr ()))
       (io_return target))))))))))))))
       (fallback_only (JArr []))"

section \<open>The chain panel\<close>

text \<open>
  The state of \<^verbatim>\<open>ChainPanel\<close> that its handlers read: the path, the query parameters
  in their order, and the two \<^verbatim>\<open>useState\<close> cells.
\<close>

record panel =
  pathname :: string
  searchParams :: "(string \<times> string) list"
  renaming :: bool
  newName :: string

text \<open>\<^verbatim>\<open>searchParams.get(name)\<close>: the first value, or \<^verbatim>\<open>null\<close> (here \<open>None\<close>).\<close>

definition sp_get :: "(string \<times> string) list \<Rightarrow> string \<Rightarrow> string option" where
  "sp_get params n = map_of params n"

text \<open>
  \<^verbatim>\<open>URLSearchParams.set(name, value)\<close>: the first pair of that name takes the value
  and the later ones are removed; without such a pair, one is appended.
\<close>

fun sp_set :: "(string \<times> string) list \<Rightarrow> string \<Rightarrow> string \<Rightarrow> (string \<times> string) list" where
  "sp_set [] n v = [(n, v)]"
| "sp_set ((k, w) # rest) n v =
     (if k = n then (n, v) # filter (\<lambda>p. fst p \<noteq> n) rest else (k, w) # sp_set rest n v)"

text \<open>\<^verbatim>\<open>x ?? ''\<close> and a \<^verbatim>\<open>string | null\<close> inside a template literal.\<close>

fun or_empty :: "string option \<Rightarrow> string" where
  "or_empty None = []"
| "or_empty (Some s) = s"

fun str_of_null :: "string option \<Rightarrow> string" where
  "str_of_null None = ''null''"
| "str_of_null (Some s) = s"

definition handleDelete :: "env \<Rightarrow> panel \<Rightarrow> panel io" where
  "handleDelete e p =
     io_bind (io_emit (AgixtCall ''deleteChain'' [Some (or_empty (sp_get (searchParams p) ''chain''))])
                (agixt_deleteChain e (or_empty (sp_get (searchParams p) ''chain'')))) (\<lambda>_.
     io_then (io_emit (RouterPush (pathname p)) (Inr ()))
       (io_return p))"

definition handleRename :: "env \<Rightarrow> panel \<Rightarrow> panel io" where
  "handleRename e p =
     io_bind (io_emit (AgixtCall ''renameChain''
                         [Some (or_empty (sp_get (searchParams p) ''chain'')), Some (newName p)])
                (agixt_renameChain e (or_empty (sp_get (searchParams p) ''chain'')) (newName p))) (\<lambda>_.
     io_then (io_emit (SetRenaming False) (Inr ()))
       (let current = sp_set (searchParams p) ''chain'' (newName p);
            search = URLSearchParams_toString e current;
            query = (if search \<noteq> [] then ''?'' @ search else [])
        in io_then (io_emit (RouterPush (pathname p @ query)) (Inr ()))
             (io_return (p\<lparr>renaming := False\<rparr>))))"

definition handleExportChain :: "env \<Rightarrow> panel \<Rightarrow> unit io" where
  "handleExportChain e p =
     io_bind (io_emit (AgixtCall ''getChain'' [Some (or_empty (sp_get (searchParams p) ''chain''))])
                (agixt_getChain e (or_empty (sp_get (searchParams p) ''chain'')))) (\<lambda>chainData.
     io_bind (io_lift (get_prop chainData ''steps'')) (\<lambda>steps.
     io_emit (AnchorClick
                \<lparr>file_name = str_of_null (sp_get (searchParams p) ''chain'') @ ''.json'',
                 blob_text = str_of (JSON_stringify e steps),
                 blob_type = ''application/json''\<rparr>) (Inr ())))"

section \<open>What the hooks are compared with\<close>

text \<open>
  The agents of all companies as the specification words it: the agents of each
  company, in company order, each carrying the name of its company.
\<close>

fun agents_by_company :: "company list \<Rightarrow> agent list" where
  "agents_by_company [] = []"
| "agents_by_company (c # cs) =
     map (\<lambda>a. a\<lparr>companyName := Some (company_name c)\<rparr>) (company_agents c) @ agents_by_company cs"

text \<open>The default agent of a company, or its first agent where none is marked default.\<close>

fun default_or_first :: "agent list \<Rightarrow> agent option" where
  "default_or_first [] = None"
| "default_or_first (a # as) =
     (case find agent_default (a # as) of Some d \<Rightarrow> Some d | None \<Rightarrow> Some a)"

text \<open>The network requests among the effects.\<close>

fun is_request :: "event \<Rightarrow> bool" where
  "is_request (GqlRequest c q v) = True"
| "is_request ev = False"

subsection \<open>Sample environments and data\<close>

text \<open>A client without a server: every request is rejected and every parse fails.\<close>

definition offline :: env where
  "offline =
     \<lparr>NEXT_PUBLIC_AGIXT_SERVER = Some ''http://localhost:7437'',
      NEXT_PUBLIC_COOKIE_DOMAIN = None,
      graphql = (\<lambda>client query vars. Inl (ClientError ''offline'')),
      zod_parse = (\<lambda>s v. Inl (ZodError ''invalid'')),
      parse_user = (\<lambda>v. Inl (ZodError ''invalid'')),
      parse_agent = (\<lambda>v. Inl (ZodError ''invalid'')),
      agixt_getCommands = (\<lambda>n. Inl (ClientError ''offline'')),
      agixt_getCompanies = Inl (ClientError ''offline''),
      agixt_getInvitations = (\<lambda>c. Inl (ClientError ''offline'')),
      agixt_getChain = (\<lambda>n. Inl (ClientError ''offline'')),
      agixt_renameChain = (\<lambda>a b. Inl (ClientError ''offline'')),
      agixt_deleteChain = (\<lambda>n. Inl (ClientError ''offline'')),
      axios_get = (\<lambda>url auth. Inl (ClientError ''offline'')),
      JSON_stringify = (\<lambda>v. None),
      URLSearchParams_toString = (\<lambda>ps. [])\<rparr>"

definition gpt :: agent where
  "gpt = \<lparr>agent_name = ''gpt'', companyName = None, agent_default = False, settings = []\<rparr>"

definition helper :: agent where
  "helper = \<lparr>agent_name = ''helper'', companyName = None, agent_default = True, settings = []\<rparr>"

definition scout :: agent where
  "scout = \<lparr>agent_name = ''scout'', companyName = None, agent_default = False, settings = []\<rparr>"

definition acme :: company where
  "acme = \<lparr>company_id = ''c1'', company_name = ''Acme'', primary = False, company_agents = [scout]\<rparr>"

definition hollow :: company where
  "hollow = \<lparr>company_id = ''c0'', company_name = ''Hollow'', primary = True, company_agents = []\<rparr>"

definition globex :: company where
  "globex = \<lparr>company_id = ''c2'', company_name = ''Globex'', primary = True,
             company_agents = [gpt, helper]\<rparr>"

definition my_chain :: json where
  "my_chain = JObj [(''chainName'', JStr ''MyChain''), (''steps'', JArr [JNum 1])]"

text \<open>
  A server that answers: every GraphQL request gets the same object, every parse
  accepts its input, the REST client succeeds. The serialisers are stand-ins that
  print a fixed text for the values used below.
\<close>

definition online :: env where
  "online =
     \<lparr>NEXT_PUBLIC_AGIXT_SERVER = Some ''http://localhost:7437'',
      NEXT_PUBLIC_COOKIE_DOMAIN = Some ''localhost'',
      graphql = (\<lambda>client query vars.
                   Inr (JObj [(''chain'', my_chain), (''agent'', JObj [(''name'', JStr ''gpt'')])])),
      zod_parse = (\<lambda>s v. Inr v),
      parse_user = (\<lambda>v. Inr zero_user),
      parse_agent = (\<lambda>v. Inr gpt),
      agixt_getCommands = (\<lambda>n. Inr [''Write File'']),
      agixt_getCompanies = Inr (JArr []),
      agixt_getInvitations = (\<lambda>c. Inr (JArr [])),
      agixt_getChain = (\<lambda>n. Inr my_chain),
      agixt_renameChain = (\<lambda>a b. Inr (JStr ''renamed'')),
      agixt_deleteChain = (\<lambda>n. Inr (JStr ''deleted'')),
      axios_get = (\<lambda>url auth. Inr (JObj [(''data'', JObj [(''companies'', JArr [])])])),
      JSON_stringify = (\<lambda>v. Some ''[1]''),
      URLSearchParams_toString =
        (\<lambda>ps. concat (map (\<lambda>(k, v). k @ ''='' @ v @ '';'') ps))\<rparr>"

section \<open>Evaluating the caching layer and the effect monad\<close>

lemma useSWR_config: "config (useSWR k f c) = c"
  by (simp add: useSWR_def split: option.splits prod.splits sum.splits)

lemma useSWR_key: "key (useSWR k f c) = k"
  by (simp add: useSWR_def split: option.splits prod.splits sum.splits)

lemma useSWR_None:
  "useSWR None f c = \<lparr>key = None, config = c, effects = [], data = fallbackData c, error = None\<rparr>"
  by (simp add: useSWR_def)

lemma useSWR_effects: "effects (useSWR (Some k) f c) = fst f"
  by (simp add: useSWR_def split: prod.splits sum.splits)

lemma useSWR_data:
  "data (useSWR (Some k) f c) = (case snd f of Inl x \<Rightarrow> fallbackData c | Inr v \<Rightarrow> v)"
  by (simp add: useSWR_def split: prod.splits sum.splits)

lemma useSWR_error:
  "error (useSWR (Some k) f c) = (case snd f of Inl x \<Rightarrow> Some x | Inr v \<Rightarrow> None)"
  by (simp add: useSWR_def split: prod.splits sum.splits)

lemma io_return_parts: "fst (io_return v) = []" "snd (io_return v) = Inr v"
  by (simp_all add: io_return_def)

lemma io_lift_parts: "fst (io_lift r) = []" "snd (io_lift r) = r"
  by (simp_all add: io_lift_def)

lemma io_emit_parts: "fst (io_emit ev r) = [ev]" "snd (io_emit ev r) = r"
  by (simp_all add: io_emit_def)

lemma log_parts: "fst (log n l) = [Log n l]" "snd (log n l) = Inr ()"
  by (simp_all add: log_def io_emit_def)

lemma request_parts:
  "fst (request e c q v) = [GqlRequest c q v]" "snd (request e c q v) = graphql e c q v"
  by (simp_all add: request_def io_emit_def)

lemma io_bind_parts:
  "fst (io_bind m f) = fst m @ (case snd m of Inl x \<Rightarrow> [] | Inr v \<Rightarrow> fst (f v))"
  "snd (io_bind m f) = (case snd m of Inl x \<Rightarrow> Inl x | Inr v \<Rightarrow> snd (f v))"
  by (simp_all add: io_bind_def split: prod.splits sum.splits)

lemma io_then_parts:
  "fst (io_then m k) = fst m @ (case snd m of Inl x \<Rightarrow> [] | Inr v \<Rightarrow> fst k)"
  "snd (io_then m k) = (case snd m of Inl x \<Rightarrow> Inl x | Inr v \<Rightarrow> snd k)"
  by (simp_all add: io_then_def io_bind_parts)

lemma io_catch_parts:
  "fst (io_catch m h) = fst m @ (case snd m of Inl x \<Rightarrow> fst (h x) | Inr v \<Rightarrow> [])"
  "snd (io_catch m h) = (case snd m of Inl x \<Rightarrow> snd (h x) | Inr v \<Rightarrow> Inr v)"
  by (simp_all add: io_catch_def split: prod.splits sum.splits)

lemmas io_parts = io_return_parts io_lift_parts io_emit_parts log_parts request_parts
  io_bind_parts io_then_parts io_catch_parts


section \<open>useAgents\<close>

lemma flatMap_agents:
  "flatMap (\<lambda>company. map (\<lambda>agent. agent\<lparr>companyName := Some (company_name company)\<rparr>)
       (company_agents company)) cs = agents_by_company cs"
  by (induction cs) (simp_all add: flatMap_def)

lemma agents_by_company_mem:
  "a \<in> set (agents_by_company cs) \<Longrightarrow>
     \<exists>c \<in> set cs. \<exists>a0 \<in> set (company_agents c). a = a0\<lparr>companyName := Some (company_name c)\<rparr>"
  by (induction cs) auto

text \<open>
  C8. For every company list that \<^verbatim>\<open>useCompanies\<close> supplies, \<^verbatim>\<open>useAgents\<close> returns
  the agents of the companies concatenated in company order, every returned agent
  carrying in \<open>companyName\<close> the name of a company that contains it (and being that
  company's agent otherwise unchanged); with an undefined company list the result is
  the empty list.
\<close>

theorem useAgents_by_company:
  "data (useAgents None) = [] \<and>
   data (useAgents (Some cs)) = agents_by_company cs \<and>
   map agent_name (data (useAgents (Some cs))) = concat (map (\<lambda>c. map agent_name (company_agents c)) cs) \<and>
   (\<forall>a \<in> set (data (useAgents (Some cs))).
      \<exists>c \<in> set cs. companyName a = Some (company_name c) \<and>
        (\<exists>a0 \<in> set (company_agents c). a = a0\<lparr>companyName := Some (company_name c)\<rparr>))"
proof -
  have none: "data (useAgents None) = []"
    by (simp add: useAgents_def useSWR_data io_parts)
  have some: "data (useAgents (Some cs)) = agents_by_company cs"
    by (simp add: useAgents_def useSWR_data io_parts flatMap_agents)
  have names: "map agent_name (agents_by_company cs) = concat (map (\<lambda>c. map agent_name (company_agents c)) cs)"
    by (induction cs) (simp_all add: comp_def)
  have mem: "\<forall>a \<in> set (agents_by_company cs).
      \<exists>c \<in> set cs. companyName a = Some (company_name c) \<and>
        (\<exists>a0 \<in> set (company_agents c). a = a0\<lparr>companyName := Some (company_name c)\<rparr>)"
  proof
    fix a assume "a \<in> set (agents_by_company cs)"
    then obtain c a0 where "c \<in> set cs" "a0 \<in> set (company_agents c)"
      "a = a0\<lparr>companyName := Some (company_name c)\<rparr>"
      using agents_by_company_mem by blast
    then show "\<exists>c \<in> set cs. companyName a = Some (company_name c) \<and>
        (\<exists>a0 \<in> set (company_agents c). a = a0\<lparr>companyName := Some (company_name c)\<rparr>)"
      by auto
  qed
  show ?thesis using none some names mem by simp
qed

theorem useAgents_by_company_witness:
  "scout\<lparr>companyName := Some ''Acme''\<rparr> \<in> set (data (useAgents (Some [acme, globex]))) \<and>
   (\<exists>c \<in> set [acme, globex].
      companyName (scout\<lparr>companyName := Some ''Acme''\<rparr>) = Some (company_name c) \<and>
      (\<exists>a0 \<in> set (company_agents c).
         scout\<lparr>companyName := Some ''Acme''\<rparr> = a0\<lparr>companyName := Some (company_name c)\<rparr>))"
proof -
  have mem: "scout\<lparr>companyName := Some ''Acme''\<rparr> \<in> set (data (useAgents (Some [acme, globex])))"
    using useAgents_by_company [of "[acme, globex]"] by (simp add: acme_def globex_def)
  with useAgents_by_company [of "[acme, globex]"] show ?thesis by blast
qed

section \<open>Hooks whose key depends on the identifier\<close>

lemma gated_None:
  "\<not> truthy x \<Longrightarrow> (case x of None \<Rightarrow> None | Some n \<Rightarrow> if n \<noteq> [] then Some (f n) else None) = None"
  by (cases x) simp_all

text \<open>
  C1, as the code has it. For \<^verbatim>\<open>useChain\<close>, \<^verbatim>\<open>useCommandArgs\<close>, \<^verbatim>\<open>useProvider\<close> and
  \<^verbatim>\<open>useConversation\<close>: when the identifier is absent (undefined or empty) the cache key
  is \<^verbatim>\<open>null\<close>, so the fetcher is not run, nothing is requested or logged, and the hook
  returns its fallback \<^verbatim>\<open>null\<close>. The key of \<^verbatim>\<open>useAgent\<close>, \<^verbatim>\<open>useCompany\<close>,
  \<^verbatim>\<open>useInvitations\<close>, \<^verbatim>\<open>useOldInvitations\<close> and \<^verbatim>\<open>usePrompt\<close> is never \<^verbatim>\<open>null\<close>, so
  their fetcher runs whether or not the identifier is present.
\<close>

theorem gated_hooks_skip_fetch:
  assumes "\<not> truthy x"
  shows "useChain e jar x =
           \<lparr>key = None, config = fallback_only JNull, effects = [], data = JNull, error = None\<rparr> \<and>
         useCommandArgs e jar x =
           \<lparr>key = None, config = fallback_only JNull, effects = [], data = JNull, error = None\<rparr> \<and>
         useProvider e jar x =
           \<lparr>key = None, config = fallback_only JNull, effects = [], data = JNull, error = None\<rparr> \<and>
         useConversation e jar x =
           \<lparr>key = None,
            config = \<lparr>fallbackData = JNull, refreshInterval = Some 1000, revalidateOnFocus = None,
                      revalidateOnReconnect = None\<rparr>,
            effects = [], data = JNull, error = None\<rparr> \<and>
         key (snd (useAgent e jar withSettings x companies)) \<noteq> None \<and>
         key (useCompany jar x companies) \<noteq> None \<and>
         key (useInvitations e jar x) \<noteq> None \<and>
         key (useOldInvitations e x) \<noteq> None \<and>
         key (usePrompt x prompts) \<noteq> None"
proof -
  have gated: "useChain e jar x =
           \<lparr>key = None, config = fallback_only JNull, effects = [], data = JNull, error = None\<rparr> \<and>
         useCommandArgs e jar x =
           \<lparr>key = None, config = fallback_only JNull, effects = [], data = JNull, error = None\<rparr> \<and>
         useProvider e jar x =
           \<lparr>key = None, config = fallback_only JNull, effects = [], data = JNull, error = None\<rparr> \<and>
         useConversation e jar x =
           \<lparr>key = None,
            config = \<lparr>fallbackData = JNull, refreshInterval = Some 1000, revalidateOnFocus = None,
                      revalidateOnReconnect = None\<rparr>,
            effects = [], data = JNull, error = None\<rparr>"
    using assms
    by (simp add: useChain_def useCommandArgs_def useProvider_def useConversation_def Let_def
        gated_None useSWR_None fallback_only_def)
  have agent: "key (snd (useAgent e jar withSettings x companies)) \<noteq> None"
    by (simp add: useAgent_def useSWR_key split: prod.splits)
  have others: "key (useCompany jar x companies) \<noteq> None \<and>
         key (useInvitations e jar x) \<noteq> None \<and>
         key (useOldInvitations e x) \<noteq> None \<and>
         key (usePrompt x prompts) \<noteq> None"
    by (simp add: useCompany_def useInvitations_def useOldInvitations_def usePrompt_def
        useSWR_key Let_def)
  from gated agent others show ?thesis by simp
qed

theorem gated_hooks_skip_fetch_witness:
  "\<not> truthy (Some []) \<and> \<not> truthy None \<and>
   key (useChain offline Map.empty (Some [])) = None \<and>
   effects (useChain offline Map.empty (Some [])) = [] \<and>
   data (useCommandArgs offline Map.empty None) = JNull \<and>
   data (useProvider online Map.empty None) = JNull \<and>
   effects (useConversation online Map.empty (Some [])) = []"
  using gated_hooks_skip_fetch [of "Some []" offline Map.empty]
    gated_hooks_skip_fetch [of None offline Map.empty]
    gated_hooks_skip_fetch [of None online Map.empty]
    gated_hooks_skip_fetch [of "Some []" online Map.empty]
  by simp

text \<open>
  The other hooks keep a key when the identifier is absent. \<^verbatim>\<open>useAgent\<close> with
  settings, no name, no cookie and no company requests the agent named \<^verbatim>\<open>undefined\<close>
  and returns what the server sent; \<^verbatim>\<open>useInvitations\<close> without a company id requests
  all invitations; \<^verbatim>\<open>usePrompt\<close> with an empty name searches the prompts for it.
\<close>

theorem absent_name_still_fetches:
  "key (snd (useAgent online Map.empty True None (Some []))) =
     Some (ArrKey [KString ''/agent?name=undefined'', KCompanies (Some []), KBool True]) \<and>
   effects (snd (useAgent online Map.empty True None (Some []))) =
     [Log 3 ''GQL useAgent() Query'',
      GqlRequest \<lparr>endpoint = ''http://localhost:7437/graphql'', authorization = []\<rparr>
        (toGQL AgentSchema Query ''GetAgent'' [(''name'', None)]) [(''name'', None)],
      Log 3 ''GQL useAgent() Response''] \<and>
   data (snd (useAgent online Map.empty True None (Some []))) = ParsedAgent gpt \<and>
   data (snd (useAgent online Map.empty True None (Some []))) \<noteq>
     fallbackData (config (snd (useAgent online Map.empty True None (Some [])))) \<and>
   fallbackData (config (snd (useAgent online Map.empty True None (Some [])))) =
     AgentAndCommands None [] \<and>
   key (useInvitations offline Map.empty None) = Some (StrKey ''/invitations'') \<and>
   effects (useInvitations offline Map.empty None) =
     [GqlRequest \<lparr>endpoint = ''http://localhost:7437/graphql'', authorization = []\<rparr>
        (toGQL InvitationSchema Query ''GetInvitations'' [(''companyId'', None)])
        [(''companyId'', None)],
      Log 1 ''GQL useInvitations() Error''] \<and>
   key (usePrompt (Some []) (JArr [JObj [(''name'', JStr []), (''content'', JStr ''Hi'')]])) =
     Some (StrKey ''/prompt?name='') \<and>
   data (usePrompt (Some []) (JArr [JObj [(''name'', JStr []), (''content'', JStr ''Hi'')]])) =
     JObj [(''name'', JStr []), (''content'', JStr ''Hi'')]"
  by (simp add: useAgent_def useAgent_select_def useInvitations_def usePrompt_def Let_def js_or_def
      getCookie_def createGraphQLClient_def useSWR_key useSWR_effects useSWR_data useSWR_config
      io_parts online_def offline_def fallback_only_def)


section \<open>useChain\<close>

text \<open>
  C3. \<^verbatim>\<open>useChain(undefined)\<close> returns \<^verbatim>\<open>null\<close> without fetching. With a non-empty
  chain name the only request issued is the \<^verbatim>\<open>GetChain\<close> query for that name, and
  the hook returns the chain validated by \<^verbatim>\<open>ChainSchema\<close> when the request, the read
  of \<^verbatim>\<open>response.chain\<close> and the validation all succeed, and \<^verbatim>\<open>null\<close> when any of
  them fails; no error is reported.
\<close>

theorem useChain_contract:
  assumes "chainName \<noteq> []"
  shows "useChain e jar None =
           \<lparr>key = None, config = fallback_only JNull, effects = [], data = JNull, error = None\<rparr> \<and>
         key (useChain e jar (Some chainName)) = Some (ArrKey [KString ''/chain'', KString chainName]) \<and>
         filter is_request (effects (useChain e jar (Some chainName))) =
           [GqlRequest (createGraphQLClient e jar)
              (toGQL ChainSchema Query ''GetChain'' [(''chainName'', Some chainName)])
              [(''chainName'', Some chainName)]] \<and>
         error (useChain e jar (Some chainName)) = None \<and>
         data (useChain e jar (Some chainName)) =
           (case graphql e (createGraphQLClient e jar)
                   (toGQL ChainSchema Query ''GetChain'' [(''chainName'', Some chainName)])
                   [(''chainName'', Some chainName)] of
              Inl err \<Rightarrow> JNull
            | Inr response \<Rightarrow>
                (case get_prop response ''chain'' of
                   Inl err \<Rightarrow> JNull
                 | Inr chain \<Rightarrow>
                     (case zod_parse e ChainSchema chain of
                        Inl err \<Rightarrow> JNull
                      | Inr validated \<Rightarrow> validated)))"
proof -
  have none: "useChain e jar None =
      \<lparr>key = None, config = fallback_only JNull, effects = [], data = JNull, error = None\<rparr>"
    by (simp add: useChain_def useSWR_None fallback_only_def)
  have k: "key (useChain e jar (Some chainName)) = Some (ArrKey [KString ''/chain'', KString chainName])"
    using assms by (simp add: useChain_def useSWR_key Let_def)
  have r: "filter is_request (effects (useChain e jar (Some chainName))) =
           [GqlRequest (createGraphQLClient e jar)
              (toGQL ChainSchema Query ''GetChain'' [(''chainName'', Some chainName)])
              [(''chainName'', Some chainName)]]"
    using assms by (simp add: useChain_def Let_def useSWR_effects io_parts split: sum.splits)
  have er: "error (useChain e jar (Some chainName)) = None"
    using assms by (simp add: useChain_def Let_def useSWR_error io_parts split: sum.splits)
  have d: "data (useChain e jar (Some chainName)) =
           (case graphql e (createGraphQLClient e jar)
                   (toGQL ChainSchema Query ''GetChain'' [(''chainName'', Some chainName)])
                   [(''chainName'', Some chainName)] of
              Inl err \<Rightarrow> JNull
            | Inr response \<Rightarrow>
                (case get_prop response ''chain'' of
                   Inl err \<Rightarrow> JNull
                 | Inr chain \<Rightarrow>
                     (case zod_parse e ChainSchema chain of
                        Inl err \<Rightarrow> JNull
                      | Inr validated \<Rightarrow> validated)))"
    using assms
    by (simp add: useChain_def Let_def useSWR_data io_parts fallback_only_def split: sum.splits)
  from none k r er d show ?thesis by simp
qed

theorem useChain_contract_witness:
  "''MyChain'' \<noteq> [] \<and>
   data (useChain online Map.empty (Some ''MyChain'')) = my_chain \<and>
   data (useChain offline Map.empty (Some ''MyChain'')) = JNull \<and>
   filter is_request (effects (useChain offline Map.empty (Some ''MyChain''))) =
     [GqlRequest \<lparr>endpoint = ''http://localhost:7437/graphql'', authorization = []\<rparr>
        (toGQL ChainSchema Query ''GetChain'' [(''chainName'', Some ''MyChain'')])
        [(''chainName'', Some ''MyChain'')]]"
  using useChain_contract [of "''MyChain''" online Map.empty]
    useChain_contract [of "''MyChain''" offline Map.empty]
  by (simp add: online_def offline_def createGraphQLClient_def js_or_def getCookie_def my_chain_def)


section \<open>Refresh intervals\<close>

lemma useConversation_live:
  assumes "conversationId \<noteq> []"
  shows "key (useConversation e jar (Some conversationId)) =
           Some (ArrKey [KString ''/conversation'', KString conversationId])"
    and "filter is_request (effects (useConversation e jar (Some conversationId))) =
           [GqlRequest (createGraphQLClient e jar)
              (toGQL ConversationSchema Subscription ''WatchConversation''
                 [(''conversationId'', Some conversationId)])
              [(''conversationId'', Some conversationId)]]"
  using assms
  by (simp_all add: useConversation_def Let_def useSWR_key useSWR_effects io_parts split: sum.splits)

lemma agent_config:
  "config (snd (useAgent e jar withSettings name companies)) = fallback_only (AgentAndCommands None [])"
  by (simp add: useAgent_def useSWR_config split: prod.splits)

lemma refresh_intervals:
  "refreshInterval (config (useConversation e jar anyId)) = Some 1000 \<and>
   refreshInterval (config (useAgents companies)) = None \<and>
   refreshInterval (config (snd (useAgent e jar withSettings name companies))) = None \<and>
   refreshInterval (config (usePromptCategories e jar)) = None \<and>
   refreshInterval (config (usePrompt name prompts)) = None \<and>
   refreshInterval (config (usePrompts e jar)) = None \<and>
   refreshInterval (config (useCompanies user)) = None \<and>
   refreshInterval (config (useCompany jar id' companies)) = None \<and>
   refreshInterval (config (useUser e jar)) = None \<and>
   refreshInterval (config (useProvider e jar providerName)) = None \<and>
   refreshInterval (config (useProviders e jar)) = None \<and>
   refreshInterval (config (useInvitations e jar companyId)) = None \<and>
   refreshInterval (config (useCommandArgs e jar commandName)) = None \<and>
   refreshInterval (config (useChain e jar chainName)) = None \<and>
   refreshInterval (config (useChains e jar)) = None \<and>
   refreshInterval (config (useConversations e jar)) = None \<and>
   refreshInterval (config (useOldCompanies e)) = None \<and>
   refreshInterval (config (useOldInvitations e companyId)) = None \<and>
   refreshInterval (config (useOldActiveCompany e jar companyData)) = None"
  unfolding useConversation_def useAgents_def usePromptCategories_def usePrompt_def
    usePrompts_def useCompanies_def useCompany_def useUser_def useProvider_def
    useProviders_def useInvitations_def useCommandArgs_def useChain_def useChains_def
    useConversations_def useOldCompanies_def useOldInvitations_def useOldActiveCompany_def
    Let_def useSWR_config agent_config
  by (simp add: fallback_only_def)

lemma focus_and_reconnect:
  "revalidateOnFocus (config (useAgents companies)) = None \<and>
   revalidateOnReconnect (config (useAgents companies)) = None \<and>
   revalidateOnFocus (config (snd (useAgent e jar withSettings name companies))) = None \<and>
   revalidateOnReconnect (config (snd (useAgent e jar withSettings name companies))) = None \<and>
   revalidateOnFocus (config (usePromptCategories e jar)) = None \<and>
   revalidateOnReconnect (config (usePromptCategories e jar)) = None \<and>
   revalidateOnFocus (config (usePrompt name prompts)) = Some False \<and>
   revalidateOnReconnect (config (usePrompt name prompts)) = Some False \<and>
   revalidateOnFocus (config (usePrompts e jar)) = None \<and>
   revalidateOnReconnect (config (usePrompts e jar)) = None \<and>
   revalidateOnFocus (config (useCompanies user)) = None \<and>
   revalidateOnReconnect (config (useCompanies user)) = None \<and>
   revalidateOnFocus (config (useCompany jar id' companies)) = None \<and>
   revalidateOnReconnect (config (useCompany jar id' companies)) = None \<and>
   revalidateOnFocus (config (useUser e jar)) = None \<and>
   revalidateOnReconnect (config (useUser e jar)) = None \<and>
   revalidateOnFocus (config (useProvider e jar providerName)) = None \<and>
   revalidateOnReconnect (config (useProvider e jar providerName)) = None \<and>
   revalidateOnFocus (config (useProviders e jar)) = None \<and>
   revalidateOnReconnect (config (useProviders e jar)) = None \<and>
   revalidateOnFocus (config (useInvitations e jar companyId)) = None \<and>
   revalidateOnReconnect (config (useInvitations e jar companyId)) = None \<and>
   revalidateOnFocus (config (useCommandArgs e jar commandName)) = None \<and>
   revalidateOnReconnect (config (useCommandArgs e jar commandName)) = None \<and>
   revalidateOnFocus (config (useChain e jar chainName)) = None \<and>
   revalidateOnReconnect (config (useChain e jar chainName)) = None \<and>
   revalidateOnFocus (config (useChains e jar)) = None \<and>
   revalidateOnReconnect (config (useChains e jar)) = None \<and>
   revalidateOnFocus (config (useConversations e jar)) = None \<and>
   revalidateOnReconnect (config (useConversations e jar)) = None \<and>
   revalidateOnFocus (config (useOldCompanies e)) = None \<and>
   revalidateOnReconnect (config (useOldCompanies e)) = None \<and>
   revalidateOnFocus (config (useOldInvitations e companyId)) = None \<and>
   revalidateOnReconnect (config (useOldInvitations e companyId)) = None \<and>
   revalidateOnFocus (config (useOldActiveCompany e jar companyData)) = None \<and>
   revalidateOnReconnect (config (useOldActiveCompany e jar companyData)) = None \<and>
   revalidateOnFocus (config (useConversation e jar anyId)) = None \<and>
   revalidateOnReconnect (config (useConversation e jar anyId)) = None"
  unfolding useConversation_def useAgents_def usePromptCategories_def usePrompt_def
    usePrompts_def useCompanies_def useCompany_def useUser_def useProvider_def
    useProviders_def useInvitations_def useCommandArgs_def useChain_def useChains_def
    useConversations_def useOldCompanies_def useOldInvitations_def useOldActiveCompany_def
    Let_def useSWR_config agent_config
  by (simp add: fallback_only_def)

text \<open>
  C7, as the code has it. For every non-empty conversation id \<^verbatim>\<open>useConversation\<close> has a
  live cache key for that id, its fetcher issues the \<^verbatim>\<open>WatchConversation\<close> request for
  it, and it is configured with a refresh interval of 1000 ms. No other hook sets a
  refresh interval. Revalidation on focus and on reconnect is switched off by
  \<^verbatim>\<open>usePrompt\<close> alone; every other hook leaves both options unset.
\<close>

theorem only_useConversation_polls:
  assumes "conversationId \<noteq> []"
  shows "key (useConversation e jar (Some conversationId)) =
           Some (ArrKey [KString ''/conversation'', KString conversationId]) \<and>
   filter is_request (effects (useConversation e jar (Some conversationId))) =
     [GqlRequest (createGraphQLClient e jar)
        (toGQL ConversationSchema Subscription ''WatchConversation''
           [(''conversationId'', Some conversationId)])
        [(''conversationId'', Some conversationId)]] \<and>
   refreshInterval (config (useConversation e jar (Some conversationId))) = Some 1000 \<and>
   refreshInterval (config (useConversation e jar anyId)) = Some 1000 \<and>
   refreshInterval (config (useAgents companies)) = None \<and>
   refreshInterval (config (snd (useAgent e jar withSettings name companies))) = None \<and>
   refreshInterval (config (usePromptCategories e jar)) = None \<and>
   refreshInterval (config (usePrompt name prompts)) = None \<and>
   refreshInterval (config (usePrompts e jar)) = None \<and>
   refreshInterval (config (useCompanies user)) = None \<and>
   refreshInterval (config (useCompany jar id' companies)) = None \<and>
   refreshInterval (config (useUser e jar)) = None \<and>
   refreshInterval (config (useProvider e jar providerName)) = None \<and>
   refreshInterval (config (useProviders e jar)) = None \<and>
   refreshInterval (config (useInvitations e jar companyId)) = None \<and>
   refreshInterval (config (useCommandArgs e jar commandName)) = None \<and>
   refreshInterval (config (useChain e jar chainName)) = None \<and>
   refreshInterval (config (useChains e jar)) = None \<and>
   refreshInterval (config (useConversations e jar)) = None \<and>
   refreshInterval (config (useOldCompanies e)) = None \<and>
   refreshInterval (config (useOldInvitations e companyId)) = None \<and>
   refreshInterval (config (useOldActiveCompany e jar companyData)) = None \<and>
   revalidateOnFocus (config (useAgents companies)) = None \<and>
   revalidateOnReconnect (config (useAgents companies)) = None \<and>
   revalidateOnFocus (config (snd (useAgent e jar withSettings name companies))) = None \<and>
   revalidateOnReconnect (config (snd (useAgent e jar withSettings name companies))) = None \<and>
   revalidateOnFocus (config (usePromptCategories e jar)) = None \<and>
   revalidateOnReconnect (config (usePromptCategories e jar)) = None \<and>
   revalidateOnFocus (config (usePrompt name prompts)) = Some False \<and>
   revalidateOnReconnect (config (usePrompt name prompts)) = Some False \<and>
   revalidateOnFocus (config (usePrompts e jar)) = None \<and>
   revalidateOnReconnect (config (usePrompts e jar)) = None \<and>
   revalidateOnFocus (config (useCompanies user)) = None \<and>
   revalidateOnReconnect (config (useCompanies user)) = None \<and>
   revalidateOnFocus (config (useCompany jar id' companies)) = None \<and>
   revalidateOnReconnect (config (useCompany jar id' companies)) = None \<and>
   revalidateOnFocus (config (useUser e jar)) = None \<and>
   revalidateOnReconnect (config (useUser e jar)) = None \<and>
   revalidateOnFocus (config (useProvider e jar providerName)) = None \<and>
   revalidateOnReconnect (config (useProvider e jar providerName)) = None \<and>
   revalidateOnFocus (config (useProviders e jar)) = None \<and>
   revalidateOnReconnect (config (useProviders e jar)) = None \<and>
   revalidateOnFocus (config (useInvitations e jar companyId)) = None \<and>
   revalidateOnReconnect (config (useInvitations e jar companyId)) = None \<and>
   revalidateOnFocus (config (useCommandArgs e jar commandName)) = None \<and>
   revalidateOnReconnect (config (useCommandArgs e jar commandName)) = None \<and>
   revalidateOnFocus (config (useChain e jar chainName)) = None \<and>
   revalidateOnReconnect (config (useChain e jar chainName)) = None \<and>
   revalidateOnFocus (config (useChains e jar)) = None \<and>
   revalidateOnReconnect (config (useChains e jar)) = None \<and>
   revalidateOnFocus (config (useConversations e jar)) = None \<and>
   revalidateOnReconnect (config (useConversations e jar)) = None \<and>
   revalidateOnFocus (config (useOldCompanies e)) = None \<and>
   revalidateOnReconnect (config (useOldCompanies e)) = None \<and>
   revalidateOnFocus (config (useOldInvitations e companyId)) = None \<and>
   revalidateOnReconnect (config (useOldInvitations e companyId)) = None \<and>
   revalidateOnFocus (config (useOldActiveCompany e jar companyData)) = None \<and>
   revalidateOnReconnect (config (useOldActiveCompany e jar companyData)) = None \<and>
   revalidateOnFocus (config (useConversation e jar anyId)) = None \<and>
   revalidateOnReconnect (config (useConversation e jar anyId)) = None"
  using useConversation_live [OF assms, of e jar]
    refresh_intervals [of e jar "Some conversationId"]
    refresh_intervals [of e jar anyId companies withSettings name prompts user id' providerName
      companyId commandName chainName companyData]
    focus_and_reconnect [of companies e jar withSettings name prompts user id' providerName
      companyId commandName chainName companyData anyId]
  by simp

theorem only_useConversation_polls_witness:
  "''c42'' \<noteq> [] \<and>
   key (useConversation offline Map.empty (Some ''c42'')) =
     Some (ArrKey [KString ''/conversation'', KString ''c42'']) \<and>
   effects (useConversation offline Map.empty (Some ''c42'')) =
     [GqlRequest \<lparr>endpoint = ''http://localhost:7437/graphql'', authorization = []\<rparr>
        (toGQL ConversationSchema Subscription ''WatchConversation''
           [(''conversationId'', Some ''c42'')])
        [(''conversationId'', Some ''c42'')],
      Log 1 ''GQL useConversation() Error''] \<and>
   refreshInterval (config (useConversation offline Map.empty (Some ''c42''))) = Some 1000 \<and>
   refreshInterval (config (useChain offline Map.empty (Some ''MyChain''))) = None"
proof -
  have h: "''c42'' \<noteq> []" by simp
  have eff: "effects (useConversation offline Map.empty (Some ''c42'')) =
     [GqlRequest \<lparr>endpoint = ''http://localhost:7437/graphql'', authorization = []\<rparr>
        (toGQL ConversationSchema Subscription ''WatchConversation''
           [(''conversationId'', Some ''c42'')])
        [(''conversationId'', Some ''c42'')],
      Log 1 ''GQL useConversation() Error'']"
    by (simp add: useConversation_def Let_def useSWR_effects io_parts offline_def
        createGraphQLClient_def js_or_def getCookie_def)
  from only_useConversation_polls [OF h, of offline Map.empty _ _ _ _ _ _ _ _ _ _ "Some ''MyChain''"]
    h eff
  show ?thesis by simp
qed

text \<open>
  The other hooks do not revalidate on a change of key only. \<^verbatim>\<open>useChain\<close>, with a live
  key and no refresh interval, leaves revalidation on focus and on reconnect at the
  library's default, which is on; \<^verbatim>\<open>usePrompt\<close> is the one hook that switches them
  off.
\<close>

theorem other_hooks_revalidate_on_focus:
  "key (useChain offline Map.empty (Some ''MyChain'')) =
     Some (ArrKey [KString ''/chain'', KString ''MyChain'']) \<and>
   refreshInterval (config (useChain offline Map.empty (Some ''MyChain''))) = None \<and>
   revalidates_on_focus (config (useChain offline Map.empty (Some ''MyChain''))) \<and>
   revalidates_on_reconnect (config (useChain offline Map.empty (Some ''MyChain''))) \<and>
   \<not> revalidates_on_focus (config (usePrompt (Some ''Think'') (JArr []))) \<and>
   \<not> revalidates_on_reconnect (config (usePrompt (Some ''Think'') (JArr [])))"
  by (simp add: useChain_def usePrompt_def Let_def useSWR_key useSWR_config fallback_only_def
      revalidates_on_focus_def revalidates_on_reconnect_def)

section \<open>useCompany\<close>

text \<open>
  C10. Without a company list \<^verbatim>\<open>useCompany\<close> returns \<^verbatim>\<open>null\<close>. With an id it returns
  the first company of that id. Without an id it returns the first company with an
  agent named by the \<^verbatim>\<open>agixt-agent\<close> cookie when that cookie is set, and the first
  primary company otherwise. It returns \<^verbatim>\<open>null\<close> exactly when no company matches.
\<close>

theorem useCompany_lookup:
  "data (useCompany jar id' None) = None \<and>
   (truthy id' \<longrightarrow>
      data (useCompany jar id' (Some cs)) = find (\<lambda>c. Some (company_id c) = id') cs) \<and>
   (\<not> truthy id' \<and> truthy (getCookie jar ''agixt-agent'') \<longrightarrow>
      data (useCompany jar id' (Some cs)) =
        find (\<lambda>c. \<exists>a \<in> set (company_agents c). Some (agent_name a) = getCookie jar ''agixt-agent'') cs) \<and>
   (\<not> truthy id' \<and> \<not> truthy (getCookie jar ''agixt-agent'') \<longrightarrow>
      data (useCompany jar id' (Some cs)) = find primary cs) \<and>
   (data (useCompany jar id' (Some cs)) = None \<longleftrightarrow>
      \<not> (\<exists>c \<in> set cs.
            if truthy id' then Some (company_id c) = id'
            else if truthy (getCookie jar ''agixt-agent'')
                 then \<exists>a \<in> set (company_agents c). Some (agent_name a) = getCookie jar ''agixt-agent''
                 else primary c))"
proof -
  have none: "data (useCompany jar id' None) = None"
    by (simp add: useCompany_def useSWR_data io_parts Let_def)
  have some: "data (useCompany jar id' (Some cs)) =
      find (\<lambda>c. if truthy id' then Some (company_id c) = id'
                 else if truthy (getCookie jar ''agixt-agent'')
                      then \<exists>a \<in> set (company_agents c). Some (agent_name a) = getCookie jar ''agixt-agent''
                      else primary c) cs"
    by (simp add: useCompany_def useSWR_data io_parts Let_def list_ex_iff cong: if_cong)
  show ?thesis
    unfolding none some by (auto simp: find_None_iff cong: if_cong)
qed


theorem useCompany_lookup_witness:
  "truthy (Some ''c2'') \<and>
   data (useCompany Map.empty (Some ''c2'') (Some [acme, globex])) = Some globex \<and>
   \<not> truthy None \<and> truthy (getCookie (Map.empty(''agixt-agent'' \<mapsto> ''scout'')) ''agixt-agent'') \<and>
   data (useCompany (Map.empty(''agixt-agent'' \<mapsto> ''scout'')) None (Some [acme, globex])) = Some acme \<and>
   \<not> truthy (getCookie Map.empty ''agixt-agent'') \<and>
   data (useCompany Map.empty None (Some [acme, globex])) = Some globex \<and>
   data (useCompany Map.empty (Some ''c9'') (Some [acme, globex])) = None"
  using useCompany_lookup [of Map.empty "Some ''c2''" "[acme, globex]"]
    useCompany_lookup [of "Map.empty(''agixt-agent'' \<mapsto> ''scout'')" None "[acme, globex]"]
    useCompany_lookup [of Map.empty None "[acme, globex]"]
    useCompany_lookup [of Map.empty "Some ''c9''" "[acme, globex]"]
  by (simp add: getCookie_def acme_def globex_def scout_def gpt_def helper_def)

section \<open>useAgent without a name\<close>

lemma default_or_first_cases:
  "default_or_first as = Some t \<Longrightarrow>
     \<exists>a0 rest. as = a0 # rest \<and> t = (case find agent_default as of Some d \<Rightarrow> d | None \<Rightarrow> a0)"
  by (cases as) (auto split: option.splits if_splits)

lemma useAgent_select_primary:
  assumes "\<not> truthy name" and "\<not> truthy (getCookie jar ''agixt-agent'')"
    and "find primary cs = Some primaryCompany"
    and "default_or_first (company_agents primaryCompany) = Some target"
  shows "useAgent_select e jar name (Some cs) =
           (Some (agent_name target), Some target,
            [SetCookie ''agixt-agent'' (agent_name target) (NEXT_PUBLIC_COOKIE_DOMAIN e)])"
proof -
  from assms(3) have ne: "cs \<noteq> []" by (cases cs) auto
  from default_or_first_cases [OF assms(4)] obtain a0 rest where
    as: "company_agents primaryCompany = a0 # rest"
    and t: "target = (case find agent_default (company_agents primaryCompany) of Some d \<Rightarrow> d | None \<Rightarrow> a0)"
    by blast
  have s: "\<not> truthy (js_or name (getCookie jar ''agixt-agent''))"
    using assms(1,2) by (simp add: js_or_def)
  show ?thesis
    unfolding useAgent_select_def Let_def using s ne assms(3) as t
    by (simp split: option.splits)
qed

text \<open>
  C9, as the code has it. \<^verbatim>\<open>useAgent\<close> called without a name and with no
  \<^verbatim>\<open>agixt-agent\<close> cookie, when the first company whose primary flag is set has an
  agent: the search target is that company's default agent, or its first agent where
  none is marked default. \<^verbatim>\<open>setCookie\<close> is called with that agent's name (and the
  configured domain) during the render, before the fetcher runs; the cache key, the
  \<^verbatim>\<open>GetAgent\<close> request (with settings) and the \<^verbatim>\<open>getCommands\<close> call and the returned
  agent (without settings) are those of that agent.
\<close>

theorem useAgent_defaults_to_primary:
  assumes "\<not> truthy name" and "\<not> truthy (getCookie jar ''agixt-agent'')"
    and "find primary cs = Some primaryCompany"
    and "default_or_first (company_agents primaryCompany) = Some target"
  shows "fst (useAgent e jar withSettings name (Some cs)) =
           [SetCookie ''agixt-agent'' (agent_name target) (NEXT_PUBLIC_COOKIE_DOMAIN e),
            Log 3 (''GQL useAgent() SEARCH NAME: '' @ agent_name target)] \<and>
         key (snd (useAgent e jar withSettings name (Some cs))) =
           Some (ArrKey [KString (''/agent?name='' @ agent_name target), KCompanies (Some cs),
                         KBool withSettings]) \<and>
         (withSettings \<longrightarrow>
            filter is_request (effects (snd (useAgent e jar withSettings name (Some cs)))) =
              [GqlRequest (createGraphQLClient e jar)
                 (toGQL AgentSchema Query ''GetAgent'' [(''name'', Some (agent_name target))])
                 [(''name'', Some (agent_name target))]]) \<and>
         (\<not> withSettings \<longrightarrow>
            take 1 (effects (snd (useAgent e jar withSettings name (Some cs)))) =
              [AgixtCall ''getCommands'' [Some (agent_name target)]] \<and>
            data (snd (useAgent e jar withSettings name (Some cs))) =
              (case agixt_getCommands e (agent_name target) of
                 Inl err \<Rightarrow> AgentAndCommands None []
               | Inr commands \<Rightarrow> AgentAndCommands (Some target) commands))"
proof -
  note sel = useAgent_select_primary [OF assms, of e]
  have rend: "fst (useAgent e jar withSettings name (Some cs)) =
           [SetCookie ''agixt-agent'' (agent_name target) (NEXT_PUBLIC_COOKIE_DOMAIN e),
            Log 3 (''GQL useAgent() SEARCH NAME: '' @ agent_name target)]"
    by (simp add: useAgent_def sel)
  have k: "key (snd (useAgent e jar withSettings name (Some cs))) =
           Some (ArrKey [KString (''/agent?name='' @ agent_name target), KCompanies (Some cs),
                         KBool withSettings])"
    by (simp add: useAgent_def sel useSWR_key)
  have req: "withSettings \<Longrightarrow>
            filter is_request (effects (snd (useAgent e jar withSettings name (Some cs)))) =
              [GqlRequest (createGraphQLClient e jar)
                 (toGQL AgentSchema Query ''GetAgent'' [(''name'', Some (agent_name target))])
                 [(''name'', Some (agent_name target))]]"
    by (simp add: useAgent_def sel useSWR_effects io_parts Let_def split: sum.splits)
  have eff: "\<not> withSettings \<Longrightarrow>
            take 1 (effects (snd (useAgent e jar withSettings name (Some cs)))) =
              [AgixtCall ''getCommands'' [Some (agent_name target)]]"
    by (simp add: useAgent_def sel useSWR_effects io_parts Let_def split: sum.splits)
  have dat: "\<not> withSettings \<Longrightarrow>
            data (snd (useAgent e jar withSettings name (Some cs))) =
              (case agixt_getCommands e (agent_name target) of
                 Inl err \<Rightarrow> AgentAndCommands None []
               | Inr commands \<Rightarrow> AgentAndCommands (Some target) commands)"
    by (simp add: useAgent_def sel useSWR_data io_parts Let_def fallback_only_def split: sum.splits)
  from rend k req eff dat show ?thesis by simp
qed

theorem useAgent_defaults_to_primary_witness:
  "\<not> truthy None \<and> \<not> truthy (getCookie Map.empty ''agixt-agent'') \<and>
   find primary [acme, globex] = Some globex \<and>
   default_or_first (company_agents globex) = Some helper \<and>
   fst (useAgent online Map.empty False None (Some [acme, globex])) =
     [SetCookie ''agixt-agent'' ''helper'' (Some ''localhost''),
      Log 3 ''GQL useAgent() SEARCH NAME: helper''] \<and>
   data (snd (useAgent online Map.empty False None (Some [acme, globex]))) =
     AgentAndCommands (Some helper) [''Write File''] \<and>
   filter is_request (effects (snd (useAgent online Map.empty True None (Some [acme, globex])))) =
     [GqlRequest \<lparr>endpoint = ''http://localhost:7437/graphql'', authorization = []\<rparr>
        (toGQL AgentSchema Query ''GetAgent'' [(''name'', Some ''helper'')])
        [(''name'', Some ''helper'')]]"
proof -
  have h1: "\<not> truthy None" by simp
  have h2: "\<not> truthy (getCookie Map.empty ''agixt-agent'')" by (simp add: getCookie_def)
  have h3: "find primary [acme, globex] = Some globex" by (simp add: acme_def globex_def)
  have h4: "default_or_first (company_agents globex) = Some helper"
    by (simp add: globex_def gpt_def helper_def)
  from useAgent_defaults_to_primary [OF h1 h2 h3 h4, of online False]
    useAgent_defaults_to_primary [OF h1 h2 h3 h4, of online True] h1 h2 h3 h4
  show ?thesis
    by (simp add: online_def helper_def createGraphQLClient_def js_or_def getCookie_def)
qed

text \<open>
  A primary company with an agent is not enough: only the first primary company is
  looked at. With a primary company without agents ahead of a primary company with
  agents, no name, and no cookie, nothing is selected, \<^verbatim>\<open>setCookie\<close> is not called and
  the agent named \<^verbatim>\<open>undefined\<close> is searched for.
\<close>

theorem later_primary_is_ignored:
  "primary globex \<and> company_agents globex = [gpt, helper] \<and>
   fst (useAgent online Map.empty False None (Some [hollow, globex])) =
     [Log 3 ''GQL useAgent() SEARCH NAME: undefined''] \<and>
   key (snd (useAgent online Map.empty False None (Some [hollow, globex]))) =
     Some (ArrKey [KString ''/agent?name=undefined'', KCompanies (Some [hollow, globex]),
                   KBool False]) \<and>
   effects (snd (useAgent online Map.empty False None (Some [hollow, globex]))) =
     [Log 3 ''GQL useAgent() Checking Company'', Log 3 ''GQL useAgent() Checking Company'',
      Log 3 ''GQL useAgent() Got Agent''] \<and>
   data (snd (useAgent online Map.empty False None (Some [hollow, globex]))) =
     AgentAndCommands None []"
  by (simp add: useAgent_def useAgent_select_def Let_def js_or_def getCookie_def useSWR_key
      useSWR_effects useSWR_data io_parts hollow_def globex_def gpt_def helper_def)

section \<open>The chain panel: rename and export\<close>

lemma sp_get_sp_set: "sp_get (sp_set ps n v) n = Some v"
  by (induction ps n v rule: sp_set.induct) (simp_all add: sp_get_def)

lemma sp_set_others: "filter (\<lambda>q. fst q \<noteq> n) (sp_set ps n v) = filter (\<lambda>q. fst q \<noteq> n) ps"
  by (induction ps n v rule: sp_set.induct) simp_all

lemma sp_set_once: "filter (\<lambda>q. fst q = n) (sp_set ps n v) = [(n, v)]"
proof (induction ps n v rule: sp_set.induct)
  case (1 n v)
  then show ?case by simp
next
  case (2 k w rest n v)
  have "filter (\<lambda>q. fst q = n) (filter (\<lambda>p. fst p \<noteq> n) rest) = []"
    by (induction rest) auto
  with 2 show ?case by simp
qed

text \<open>
  C4. When \<^verbatim>\<open>renameChain(A, B)\<close> has resolved, \<^verbatim>\<open>handleRename\<close> leaves rename mode
  and pushes the current path with the query string of the parameters in which
  \<^verbatim>\<open>chain\<close> is \<open>B\<close> (once) and every other parameter is as before, in the same
  order. The rename call is the first effect and the push the last; when the rename
  call rejects, nothing is pushed.
\<close>

theorem handleRename_sets_chain:
  "(agixt_renameChain e (or_empty (sp_get (searchParams p) ''chain'')) (newName p) = Inr r \<longrightarrow>
      handleRename e p =
        ([AgixtCall ''renameChain'' [Some (or_empty (sp_get (searchParams p) ''chain'')), Some (newName p)],
          SetRenaming False,
          RouterPush (pathname p @
            (if URLSearchParams_toString e (sp_set (searchParams p) ''chain'' (newName p)) \<noteq> []
             then ''?'' @ URLSearchParams_toString e (sp_set (searchParams p) ''chain'' (newName p))
             else []))],
         Inr (p\<lparr>renaming := False\<rparr>))) \<and>
   (agixt_renameChain e (or_empty (sp_get (searchParams p) ''chain'')) (newName p) = Inl err \<longrightarrow>
      handleRename e p =
        ([AgixtCall ''renameChain'' [Some (or_empty (sp_get (searchParams p) ''chain'')), Some (newName p)]],
         Inl err)) \<and>
   sp_get (sp_set (searchParams p) ''chain'' (newName p)) ''chain'' = Some (newName p) \<and>
   filter (\<lambda>q. fst q = ''chain'') (sp_set (searchParams p) ''chain'' (newName p)) =
     [(''chain'', newName p)] \<and>
   filter (\<lambda>q. fst q \<noteq> ''chain'') (sp_set (searchParams p) ''chain'' (newName p)) =
     filter (\<lambda>q. fst q \<noteq> ''chain'') (searchParams p)"
proof -
  have ok: "agixt_renameChain e (or_empty (sp_get (searchParams p) ''chain'')) (newName p) = Inr r \<Longrightarrow>
      handleRename e p =
        ([AgixtCall ''renameChain'' [Some (or_empty (sp_get (searchParams p) ''chain'')), Some (newName p)],
          SetRenaming False,
          RouterPush (pathname p @
            (if URLSearchParams_toString e (sp_set (searchParams p) ''chain'' (newName p)) \<noteq> []
             then ''?'' @ URLSearchParams_toString e (sp_set (searchParams p) ''chain'' (newName p))
             else []))],
         Inr (p\<lparr>renaming := False\<rparr>))"
    by (simp add: handleRename_def Let_def io_bind_def io_then_def io_emit_def io_return_def)
  have bad: "agixt_renameChain e (or_empty (sp_get (searchParams p) ''chain'')) (newName p) = Inl err \<Longrightarrow>
      handleRename e p =
        ([AgixtCall ''renameChain'' [Some (or_empty (sp_get (searchParams p) ''chain'')), Some (newName p)]],
         Inl err)"
    by (simp add: handleRename_def Let_def io_bind_def io_then_def io_emit_def io_return_def)
  from ok bad show ?thesis
    by (simp add: sp_get_sp_set sp_set_once sp_set_others)
qed

theorem handleRename_sets_chain_witness:
  "agixt_renameChain online
     (or_empty (sp_get (searchParams \<lparr>pathname = ''/chains'',
        searchParams = [(''tab'', ''steps''), (''chain'', ''A'')], renaming = True, newName = ''B''\<rparr>) ''chain''))
     (newName \<lparr>pathname = ''/chains'',
        searchParams = [(''tab'', ''steps''), (''chain'', ''A'')], renaming = True, newName = ''B''\<rparr>)
     = Inr (JStr ''renamed'') \<and>
   handleRename online \<lparr>pathname = ''/chains'',
        searchParams = [(''tab'', ''steps''), (''chain'', ''A'')], renaming = True, newName = ''B''\<rparr> =
     ([AgixtCall ''renameChain'' [Some ''A'', Some ''B''], SetRenaming False,
       RouterPush ''/chains?tab=steps;chain=B;''],
      Inr \<lparr>pathname = ''/chains'',
        searchParams = [(''tab'', ''steps''), (''chain'', ''A'')], renaming = False, newName = ''B''\<rparr>) \<and>
   handleRename offline \<lparr>pathname = ''/chains'',
        searchParams = [(''tab'', ''steps''), (''chain'', ''A'')], renaming = True, newName = ''B''\<rparr> =
     ([AgixtCall ''renameChain'' [Some ''A'', Some ''B'']], Inl (ClientError ''offline''))"
  using handleRename_sets_chain [of online "\<lparr>pathname = ''/chains'',
        searchParams = [(''tab'', ''steps''), (''chain'', ''A'')], renaming = True, newName = ''B''\<rparr>"
        "JStr ''renamed''"]
    handleRename_sets_chain [of offline "\<lparr>pathname = ''/chains'',
        searchParams = [(''tab'', ''steps''), (''chain'', ''A'')], renaming = True, newName = ''B''\<rparr>"
        _ "ClientError ''offline''"]
  by (simp add: online_def offline_def sp_get_def)

text \<open>
  C5. With a chain selected, \<^verbatim>\<open>handleExportChain\<close> first fetches that chain with
  \<^verbatim>\<open>getChain\<close>. When the fetch succeeds it clicks a download anchor whose blob is
  \<^verbatim>\<open>JSON.stringify\<close> of the chain's \<^verbatim>\<open>steps\<close> member, of type \<^verbatim>\<open>application/json\<close>,
  and whose file name is the chain name followed by \<^verbatim>\<open>.json\<close>. When the fetch
  rejects there is no download.
\<close>

theorem handleExportChain_downloads:
  assumes "sp_get (searchParams p) ''chain'' = Some chainName"
  shows "take 1 (fst (handleExportChain e p)) = [AgixtCall ''getChain'' [Some chainName]] \<and>
         (agixt_getChain e chainName = Inr chainData \<and> get_prop chainData ''steps'' = Inr steps \<longrightarrow>
            handleExportChain e p =
              ([AgixtCall ''getChain'' [Some chainName],
                AnchorClick \<lparr>file_name = chainName @ ''.json'',
                             blob_text = str_of (JSON_stringify e steps),
                             blob_type = ''application/json''\<rparr>],
               Inr ())) \<and>
         (agixt_getChain e chainName = Inl err \<longrightarrow>
            handleExportChain e p = ([AgixtCall ''getChain'' [Some chainName]], Inl err))"
  using assms
  by (simp add: handleExportChain_def io_bind_def io_emit_def io_lift_def split: sum.splits)

theorem handleExportChain_downloads_witness:
  "sp_get (searchParams \<lparr>pathname = ''/chains'', searchParams = [(''chain'', ''MyChain'')],
                         renaming = False, newName = []\<rparr>) ''chain'' = Some ''MyChain'' \<and>
   agixt_getChain online ''MyChain'' = Inr my_chain \<and>
   get_prop my_chain ''steps'' = Inr (JArr [JNum 1]) \<and>
   handleExportChain online \<lparr>pathname = ''/chains'', searchParams = [(''chain'', ''MyChain'')],
                         renaming = False, newName = []\<rparr> =
     ([AgixtCall ''getChain'' [Some ''MyChain''],
       AnchorClick \<lparr>file_name = ''MyChain.json'', blob_text = ''[1]'',
                    blob_type = ''application/json''\<rparr>],
      Inr ()) \<and>
   agixt_getChain offline ''MyChain'' = Inl (ClientError ''offline'') \<and>
   handleExportChain offline \<lparr>pathname = ''/chains'', searchParams = [(''chain'', ''MyChain'')],
                         renaming = False, newName = []\<rparr> =
     ([AgixtCall ''getChain'' [Some ''MyChain'']], Inl (ClientError ''offline''))"
proof -
  have h: "sp_get (searchParams \<lparr>pathname = ''/chains'', searchParams = [(''chain'', ''MyChain'')],
                         renaming = False, newName = []\<rparr>) ''chain'' = Some ''MyChain''"
    by (simp add: sp_get_def)
  have g: "agixt_getChain online ''MyChain'' = Inr my_chain" by (simp add: online_def)
  have s: "get_prop my_chain ''steps'' = Inr (JArr [JNum 1])" by (simp add: my_chain_def)
  have f: "agixt_getChain offline ''MyChain'' = Inl (ClientError ''offline'')"
    by (simp add: offline_def)
  from handleExportChain_downloads [OF h, of online my_chain "JArr [JNum 1]"]
    handleExportChain_downloads [OF h, of offline _ _ "ClientError ''offline''"] h g s f
  show ?thesis by (simp add: online_def)
qed

section \<open>Errors inside the fetchers\<close>

































end
